theory Spec2Isabelle
  imports Complex_Main
begin

section \<open>Data model (src/models/User.js, src/models/Deal.js)\<close>

text \<open>
  The Mongoose schemas of the repository.  A field without a default that the code may leave
  unset is an \<open>option\<close>; \<open>Date\<close> values are natural numbers (milliseconds); the
  library-managed \<open>createdAt\<close>/\<open>updatedAt\<close> stamps, the display names of a user and the
  (always empty) milestone list of a deal are not part of the model.
\<close>

datatype account_status = StatusNone | StatusPending | StatusActive | StatusRestricted

record user =
  telegramId :: string
  stripeAccountId :: "string option"
  stripeAccountStatus :: account_status
  isActive :: bool
  isBanned :: bool
  totalDeals :: int
  successfulDeals :: int

datatype deal_status = Created | Paid | Completed | Disputed | Cancelled | Refunded

record deal =
  dealId :: string
  buyerId :: string
  sellerId :: string
  amount :: int
  currency :: string
  description :: string
  status :: deal_status
  stripePaymentIntentId :: "string option"
  stripeTransferId :: "string option"
  platformFeePercent :: int
  chatId :: "string option"
  disputeReason :: "string option"
  disputedBy :: "string option"
  disputedAt :: "nat option"
  completedAt :: "nat option"
  cancelledAt :: "nat option"
  refundedAt :: "nat option"

text \<open>The two collections, in insertion order; the position of a document is its \<open>_id\<close>.\<close>

record db =
  users :: "user list"
  deals :: "deal list"

subsection \<open>Schema methods\<close>

definition canReceivePayments :: "user \<Rightarrow> bool" where
  "canReceivePayments u = (stripeAccountStatus u = StatusActive)"

definition canBePaid :: "deal \<Rightarrow> bool" where
  "canBePaid d = (status d = Created)"

definition canBeDisputed :: "deal \<Rightarrow> bool" where
  "canBeDisputed d = (status d \<in> set [Paid])"


section \<open>JavaScript numbers\<close>

text \<open>
  A finite JavaScript number is an IEEE 754 double.  It is modelled by a pair \<open>(m, t)\<close> of
  integers that stands for the dyadic rational \<open>m / 2 ^ t\<close>.  \<open>fl p q\<close> is the double nearest
  to the fraction \<open>p / q\<close> (\<open>0 < q\<close>): 53 significant bits, ties to the even significand.
  Exponent overflow and subnormal numbers are outside the model; cent amounts and the fee
  factors are far from both.  An integer \<open>a\<close> with \<open>\<bar>a\<bar> \<le> 2 ^ 53\<close> is the double \<open>(a, 0)\<close>.
\<close>

type_synonym number = "int \<times> int"

definition number_val :: "number \<Rightarrow> rat" where
  "number_val x = (case x of (m, t) \<Rightarrow>
      if 0 \<le> t then of_int m / 2 ^ nat t else of_int m * 2 ^ nat (- t))"

definition number_of_int :: "int \<Rightarrow> number" where
  "number_of_int a = (a, 0)"

fun bit_length :: "int \<Rightarrow> nat" where
  "bit_length n = (if n \<le> 0 then 0 else Suc (bit_length (n div 2)))"

declare bit_length.simps [simp del]

definition round_half_even :: "int \<Rightarrow> int \<Rightarrow> int" where
  "round_half_even p q =
     (let d = p div q; r = p mod q
      in if 2 * r < q then d
         else if q < 2 * r then d + 1
         else if even d then d else d + 1)"

definition fl_pos :: "int \<Rightarrow> int \<Rightarrow> number" where
  "fl_pos p q =
     (let d = int (bit_length p) - int (bit_length q);
          e = (if (if 0 \<le> d then q * 2 ^ nat d \<le> p else q \<le> p * 2 ^ nat (- d))
               then d else d - 1);
          t = 52 - e
      in if 0 \<le> t
         then (round_half_even (p * 2 ^ nat t) q, t)
         else (round_half_even p (q * 2 ^ nat (- t)), t))"

definition fl :: "int \<Rightarrow> int \<Rightarrow> number" where
  "fl p q = (if p = 0 then (0, 0)
             else if 0 < p then fl_pos p q
             else (case fl_pos (- p) q of (m, t) \<Rightarrow> (- m, t)))"

definition js_mul :: "number \<Rightarrow> number \<Rightarrow> number" where
  "js_mul x y = (case (x, y) of ((m1, t1), (m2, t2)) \<Rightarrow>
      if 0 \<le> t1 + t2 then fl (m1 * m2) (2 ^ nat (t1 + t2))
      else fl (m1 * m2 * 2 ^ nat (- (t1 + t2))) 1)"

definition js_div_int :: "int \<Rightarrow> int \<Rightarrow> number" where
  \<comment> \<open>\<open>a / b\<close> for integer-valued doubles, \<open>0 < b\<close>\<close>
  "js_div_int a b = fl a b"

definition Math_round :: "number \<Rightarrow> int" where
  \<comment> \<open>nearest integer, a tie goes up: \<open>\<lfloor>x + 1/2\<rfloor>\<close>\<close>
  "Math_round x = (case x of (m, t) \<Rightarrow>
      if 0 \<le> t then (2 * m + 2 ^ nat t) div 2 ^ nat (t + 1) else m * 2 ^ nat (- t))"

definition lit_0_97 :: number where
  \<comment> \<open>the literal \<open>0.97\<close>\<close>
  "lit_0_97 = fl 97 100"

subsection \<open>Amount arithmetic (src/backend/src/config/stripe.ts, Deal virtuals)\<close>

definition calculatePlatformFee :: "int \<Rightarrow> int \<Rightarrow> int" where
  \<comment> \<open>\<open>Math.round(amount * (feePercent / 100))\<close>\<close>
  "calculatePlatformFee amt feePercent =
     Math_round (js_mul (number_of_int amt) (js_div_int feePercent 100))"

definition calculateNetAmount :: "int \<Rightarrow> int \<Rightarrow> int" where
  "calculateNetAmount amt feePercent = amt - calculatePlatformFee amt feePercent"

definition platformFeeAmount :: "deal \<Rightarrow> int" where
  "platformFeeAmount d =
     Math_round (js_mul (number_of_int (amount d)) (js_div_int (platformFeePercent d) 100))"

definition netAmount :: "deal \<Rightarrow> int" where
  "netAmount d = amount d - platformFeeAmount d"

text \<open>
  The net amount in the words of the specification: the amount minus the fee
  \<open>amount * feePercent / 100\<close> rounded half away from zero, in exact arithmetic.
\<close>

definition round_half_away :: "int \<Rightarrow> int \<Rightarrow> int" where
  \<comment> \<open>\<open>p / q\<close> rounded to the nearest integer, halves away from zero (\<open>0 < q\<close>)\<close>
  "round_half_away p q =
     (if 0 \<le> p then (2 * p + q) div (2 * q) else - ((2 * (- p) + q) div (2 * q)))"

definition spec_platformFee :: "int \<Rightarrow> int \<Rightarrow> int" where
  "spec_platformFee amt feePercent = round_half_away (amt * feePercent) 100"

definition spec_netAmount :: "int \<Rightarrow> int \<Rightarrow> int" where
  "spec_netAmount amt feePercent = amt - spec_platformFee amt feePercent"

section \<open>Store queries\<close>

fun findIndex :: "('a \<Rightarrow> bool) \<Rightarrow> 'a list \<Rightarrow> nat option" where
  "findIndex P [] = None"
| "findIndex P (x # xs) = (if P x then Some 0 else map_option Suc (findIndex P xs))"

definition findOne :: "('a \<Rightarrow> bool) \<Rightarrow> 'a list \<Rightarrow> 'a option" where
  "findOne P xs = map_option (\<lambda>i. xs ! i) (findIndex P xs)"

definition updateOne :: "('a \<Rightarrow> bool) \<Rightarrow> ('a \<Rightarrow> 'a) \<Rightarrow> 'a list \<Rightarrow> 'a list" where
  "updateOne P f xs = (case findIndex P xs of None \<Rightarrow> xs | Some i \<Rightarrow> xs[i := f (xs ! i)])"

text \<open>
  JavaScript truthiness of an optional string: \<open>undefined\<close> and the empty string are falsy.
\<close>

definition truthy :: "string option \<Rightarrow> bool" where
  "truthy v = (case v of None \<Rightarrow> False | Some x \<Rightarrow> x \<noteq> [])"

text \<open>\<open>String.prototype.split(' ')\<close> and \<open>Array.prototype.join(' ')\<close>.\<close>

fun split_on :: "char \<Rightarrow> string \<Rightarrow> string list" where
  "split_on c [] = [[]]"
| "split_on c (x # xs) =
     (if x = c then [] # split_on c xs
      else (case split_on c xs of [] \<Rightarrow> [[x]] | w # ws \<Rightarrow> (x # w) # ws))"

fun join_with :: "char \<Rightarrow> string list \<Rightarrow> string" where
  "join_with c [] = []"
| "join_with c [w] = w"
| "join_with c (w # ws) = w @ c # join_with c ws"

section \<open>Bot middleware and the Stripe OAuth callback\<close>

definition new_user :: "string \<Rightarrow> user" where
  "new_user tid = \<lparr> telegramId = tid, stripeAccountId = None,
     stripeAccountStatus = StatusNone, isActive = True, isBanned = False,
     totalDeals = 0, successfulDeals = 0 \<rparr>"

definition middleware :: "string \<Rightarrow> db \<Rightarrow> user \<times> db" where
  \<comment> \<open>\<open>bot.use\<close>: loads \<open>ctx.user\<close>, creating the user on first contact\<close>
  "middleware from_id s =
     (case findOne (\<lambda>u. telegramId u = from_id) (users s) of
        Some u \<Rightarrow> (u, s)
      | None \<Rightarrow> (new_user from_id, s\<lparr>users := users s @ [new_user from_id]\<rparr>))"

datatype http_response = Status400 | Status404 | Status500 | Ok200

definition stripe_callback ::
  "string option \<Rightarrow> string option \<Rightarrow> string option \<Rightarrow> db \<Rightarrow> http_response \<times> db" where
  \<comment> \<open>\<open>GET /stripe/callback\<close>; \<open>token\<close> is the account id returned by \<open>stripe.oauth.token\<close>,
      \<open>None\<close> when that call throws\<close>
  "stripe_callback code state token s =
     (if \<not> truthy code \<or> \<not> truthy state then (Status400, s)
      else case token of
             None \<Rightarrow> (Status500, s)
           | Some acct \<Rightarrow>
               (Ok200, s\<lparr>users := updateOne (\<lambda>u. Some (telegramId u) = state)
                    (\<lambda>u. u\<lparr>stripeAccountId := Some acct, stripeAccountStatus := StatusActive\<rparr>)
                    (users s)\<rparr>))"

section \<open>Deal creation: the seller step of \<open>bot.on('text')\<close>\<close>

text \<open>
  An exception that leaves the handler is a value of \<open>thrown\<close>; what was saved before it
  stays saved.  Schema validation runs when a new document is saved: required strings are
  non-empty, \<open>amount\<close> is at least 100, \<open>description\<close> has at most 500 characters and the fee
  percentage lies in 0..10; the unique index on \<open>dealId\<close> rejects a duplicate.  Documents
  read back from the store have passed these checks, and the handlers change only fields
  without validators, so a later \<open>save\<close> of a loaded document succeeds.
\<close>

datatype thrown = ValidationError | DuplicateKey | GatewayError

datatype create_reply =
    ForwardInsteadOfUsername
  | ForwardOrUsername
  | SellerNotConnected
  | DealCreated string

definition validate_deal :: "deal \<Rightarrow> bool" where
  "validate_deal d =
     (dealId d \<noteq> [] \<and> buyerId d \<noteq> [] \<and> sellerId d \<noteq> [] \<and> description d \<noteq> [] \<and>
      100 \<le> amount d \<and> length (description d) \<le> 500 \<and>
      0 \<le> platformFeePercent d \<and> platformFeePercent d \<le> 10)"

definition insert_deal :: "deal \<Rightarrow> deal list \<Rightarrow> thrown + deal list" where
  "insert_deal d ds =
     (if \<not> validate_deal d then Inl ValidationError
      else if findIndex (\<lambda>x. dealId x = dealId d) ds \<noteq> None then Inl DuplicateKey
      else Inr (ds @ [d]))"

definition new_deal :: "string \<Rightarrow> string \<Rightarrow> string \<Rightarrow> int \<Rightarrow> string \<Rightarrow> string \<Rightarrow> deal" where
  "new_deal did buyer seller amt descr chat =
     \<lparr> dealId = did, buyerId = buyer, sellerId = seller, amount = amt,
       currency = ''USD'', description = descr, status = Created,
       stripePaymentIntentId = None, stripeTransferId = None, platformFeePercent = 3,
       chatId = Some chat, disputeReason = None, disputedBy = None, disputedAt = None,
       completedAt = None, cancelledAt = None, refundedAt = None \<rparr>"

definition text_seller_step ::
  "user \<Rightarrow> int \<Rightarrow> string \<Rightarrow> string option \<Rightarrow> string \<Rightarrow> string \<Rightarrow> string \<Rightarrow> string option
     \<Rightarrow> db \<Rightarrow> (thrown + create_reply) \<times> db" where
  \<comment> \<open>\<open>ctx_user\<close> is \<open>ctx.user\<close>; \<open>amt\<close> and \<open>descr\<close> come from \<open>ctx.session.creatingDeal\<close>;
      \<open>forward_from\<close> is \<open>ctx.message.forward_from.id.toString()\<close> when present; \<open>uuid\<close> is
      the value of \<open>uuidv4()\<close>; \<open>intent\<close> is the id of the payment intent the gateway
      returns, \<open>None\<close> when \<open>stripe.paymentIntents.create\<close> throws\<close>
  "text_seller_step ctx_user amt descr forward_from text chat uuid intent s =
     (case forward_from of
        None \<Rightarrow>
          (if take 1 text = ''@'' then (Inr ForwardInsteadOfUsername, s)
           else (Inr ForwardOrUsername, s))
      | Some seller_id \<Rightarrow>
          (case findOne (\<lambda>u. telegramId u = seller_id) (users s) of
             None \<Rightarrow> (Inr SellerNotConnected, s)
           | Some seller \<Rightarrow>
               if \<not> truthy (stripeAccountId seller) then (Inr SellerNotConnected, s)
               else
                 let did = take 8 uuid;
                     d = new_deal did (telegramId ctx_user) seller_id amt descr chat
                 in (case insert_deal d (deals s) of
                       Inl e \<Rightarrow> (Inl e, s)
                     | Inr ds \<Rightarrow>
                         (case intent of
                            None \<Rightarrow> (Inl GatewayError, s\<lparr>deals := ds\<rparr>)
                          | Some pid \<Rightarrow>
                              (Inr (DealCreated did),
                               s\<lparr>deals := ds[length (deals s) :=
                                     d\<lparr>stripePaymentIntentId := Some pid\<rparr>]\<rparr>)))))"

section \<open>Release and dispute commands\<close>

record transfer_request =
  tr_amount :: int
  tr_currency :: string
  tr_destination :: "string option"
  tr_transfer_group :: string

datatype release_reply =
    ReleaseUsage
  | ReleaseNotFound
  | ReleaseNotPaid
  | ReleaseTransferError
  | FundsReleased string

definition release_amount :: "deal \<Rightarrow> int" where
  \<comment> \<open>\<open>Math.round(deal.amount * 0.97)\<close>\<close>
  "release_amount d = Math_round (js_mul (number_of_int (amount d)) lit_0_97)"

definition release_cmd ::
  "user \<Rightarrow> string \<Rightarrow> string option \<Rightarrow> nat \<Rightarrow> db
     \<Rightarrow> release_reply \<times> transfer_request option \<times> db" where
  \<comment> \<open>\<open>transfer\<close> is the id of the transfer the gateway returns, \<open>None\<close> when
      \<open>stripe.transfers.create\<close> throws; the second component is the transfer requested\<close>
  "release_cmd ctx_user text transfer now s =
     (let args = split_on CHR '' '' text in
      if length args < 2 then (ReleaseUsage, None, s)
      else
        let did = args ! 1 in
        case findIndex (\<lambda>d. dealId d = did \<and> sellerId d = telegramId ctx_user) (deals s) of
          None \<Rightarrow> (ReleaseNotFound, None, s)
        | Some i \<Rightarrow>
            let d = deals s ! i in
            if status d \<noteq> Paid then (ReleaseNotPaid, None, s)
            else
              let req = \<lparr> tr_amount = release_amount d, tr_currency = ''usd'',
                          tr_destination = stripeAccountId ctx_user,
                          tr_transfer_group = did \<rparr>
              in case transfer of
                   None \<Rightarrow> (ReleaseTransferError, Some req, s)
                 | Some tid \<Rightarrow>
                     (FundsReleased tid, Some req,
                      s\<lparr>deals := (deals s)[i := d\<lparr>status := Completed,
                                                  stripeTransferId := Some tid,
                                                  completedAt := Some now\<rparr>],
                        users := updateOne (\<lambda>u. telegramId u = telegramId ctx_user)
                                   (\<lambda>u. u\<lparr>successfulDeals := successfulDeals u + 1\<rparr>)
                                   (users s)\<rparr>))"

datatype dispute_reply =
    DisputeUsage
  | DisputeNotFound
  | DisputeWrongStatus
  | DealDisputed string

definition dispute_cmd :: "user \<Rightarrow> string \<Rightarrow> nat \<Rightarrow> db \<Rightarrow> dispute_reply \<times> db" where
  "dispute_cmd ctx_user text now s =
     (let args = split_on CHR '' '' text in
      if length args < 3 then (DisputeUsage, s)
      else
        let did = args ! 1;
            reason = join_with CHR '' '' (drop 2 args)
        in case findIndex (\<lambda>d. dealId d = did \<and>
                    (buyerId d = telegramId ctx_user \<or> sellerId d = telegramId ctx_user))
                  (deals s) of
             None \<Rightarrow> (DisputeNotFound, s)
           | Some i \<Rightarrow>
               let d = deals s ! i in
               if status d = Completed \<or> status d = Disputed then (DisputeWrongStatus, s)
               else (DealDisputed reason,
                     s\<lparr>deals := (deals s)[i := d\<lparr>status := Disputed,
                                                 disputeReason := Some reason,
                                                 disputedAt := Some now\<rparr>]\<rparr>))"

section \<open>Stripe webhook (src/webhooks/stripe.js)\<close>

datatype message_kind = PaymentConfirmed | PaymentFailed

type_synonym notification = "string \<times> message_kind"

record stripe_event =
  event_type :: string
  object_id :: string

definition handlePaymentSucceeded :: "string \<Rightarrow> db \<Rightarrow> notification list \<times> db" where
  "handlePaymentSucceeded pid s =
     (case findIndex (\<lambda>d. stripePaymentIntentId d = Some pid) (deals s) of
        None \<Rightarrow> ([], s)
      | Some i \<Rightarrow>
          let d = (deals s ! i)\<lparr>status := Paid\<rparr>
          in ([(buyerId d, PaymentConfirmed), (sellerId d, PaymentConfirmed)],
              s\<lparr>deals := (deals s)[i := d]\<rparr>))"

definition handlePaymentFailed :: "string \<Rightarrow> db \<Rightarrow> notification list \<times> db" where
  "handlePaymentFailed pid s =
     (case findOne (\<lambda>d. stripePaymentIntentId d = Some pid) (deals s) of
        None \<Rightarrow> ([], s)
      | Some d \<Rightarrow> ([(buyerId d, PaymentFailed)], s))"

definition webhook_post ::
  "stripe_event option \<Rightarrow> db \<Rightarrow> http_response \<times> notification list \<times> db" where
  \<comment> \<open>\<open>ev\<close> is the result of \<open>stripe.webhooks.constructEvent\<close>, \<open>None\<close> when the
      signature check throws\<close>
  "webhook_post ev s =
     (case ev of
        None \<Rightarrow> (Status400, [], s)
      | Some e \<Rightarrow>
          if event_type e = ''payment_intent.succeeded''
          then (case handlePaymentSucceeded (object_id e) s of (ns, s') \<Rightarrow> (Ok200, ns, s'))
          else if event_type e = ''payment_intent.payment_failed''
          then (case handlePaymentFailed (object_id e) s of (ns, s') \<Rightarrow> (Ok200, ns, s'))
          else (Ok200, [], s))"

section \<open>Payment page (src/routes/web.js)\<close>

datatype page_response = NotFound404 | PaymentForm deal | NoResponse

definition payment_page :: "string \<Rightarrow> bool \<Rightarrow> db \<Rightarrow> page_response \<times> db" where
  \<comment> \<open>\<open>retrieved\<close>: \<open>stripe.paymentIntents.retrieve\<close> returns; when it throws the empty
      \<open>catch\<close> block sends nothing\<close>
  "payment_page did retrieved s =
     (case findOne (\<lambda>d. dealId d = did) (deals s) of
        None \<Rightarrow> (NotFound404, s)
      | Some d \<Rightarrow>
          if status d \<noteq> Created then (NotFound404, s)
          else if retrieved then (PaymentForm d, s)
          else (NoResponse, s))"

section \<open>Executions of the system\<close>

text \<open>
  One request per handler of the repository that touches the deal store; a bot request
  passes the middleware first.  The repository has no handler for cancelling or refunding
  a deal (the \<open>cancel_deal_\<close> button has no action registered).
\<close>

datatype request =
    SellerStep string int string "string option" string string string "string option"
  | ReleaseCommand string string "string option" nat
  | DisputeCommand string string nat
  | StripeWebhook "stripe_event option"
  | StripeCallback "string option" "string option" "string option"
  | PaymentPage string bool

fun handle :: "request \<Rightarrow> db \<Rightarrow> db" where
  "handle (SellerStep from_id amt descr fwd text chat uuid intent) s =
     (case middleware from_id s of (u, s1) \<Rightarrow>
        snd (text_seller_step u amt descr fwd text chat uuid intent s1))"
| "handle (ReleaseCommand from_id text transfer now) s =
     (case middleware from_id s of (u, s1) \<Rightarrow> snd (snd (release_cmd u text transfer now s1)))"
| "handle (DisputeCommand from_id text now) s =
     (case middleware from_id s of (u, s1) \<Rightarrow> snd (dispute_cmd u text now s1))"
| "handle (StripeWebhook ev) s = snd (snd (webhook_post ev s))"
| "handle (StripeCallback code state token) s = snd (stripe_callback code state token s)"
| "handle (PaymentPage did retrieved) s = snd (payment_page did retrieved s)"

fun trace :: "request list \<Rightarrow> db \<Rightarrow> db list" where
  "trace [] s = [s]"
| "trace (r # rs) s = s # trace rs (handle r s)"

definition status_at :: "db \<Rightarrow> nat \<Rightarrow> deal_status option" where
  \<comment> \<open>the status of the deal with \<open>_id\<close> \<open>i\<close>, if it exists\<close>
  "status_at s i = (if i < length (deals s) then Some (status (deals s ! i)) else None)"

text \<open>
  An account reference is present only on users whose account status is \<open>active\<close>.
\<close>

definition account_invariant :: "db \<Rightarrow> bool" where
  "account_invariant s =
     (\<forall>u \<in> set (users s). truthy (stripeAccountId u) \<longrightarrow> stripeAccountStatus u = StatusActive)"


section \<open>Sample data\<close>

text \<open>
  A buyer without a payment account, a seller whose account is connected and active, a
  user whose account is connected but restricted, and one deal between the first two.
\<close>

definition alice :: user where
  "alice = new_user ''1''"

definition bob :: user where
  "bob = (new_user ''2'')\<lparr>stripeAccountId := Some ''acct_2'',
     stripeAccountStatus := StatusActive\<rparr>"

definition carol :: user where
  "carol = (new_user ''3'')\<lparr>stripeAccountId := Some ''acct_3'',
     stripeAccountStatus := StatusRestricted\<rparr>"

definition sample_deal :: "deal_status \<Rightarrow> deal" where
  "sample_deal st = (new_deal ''ab12cd34'' ''1'' ''2'' 150 ''logo design'' ''1'')
     \<lparr>status := st, stripePaymentIntentId := Some ''pi_1''\<rparr>"

definition sample_db :: "deal_status \<Rightarrow> db" where
  "sample_db st = \<lparr> users = [alice, bob, carol], deals = [sample_deal st] \<rparr>"

definition no_deals :: db where
  "no_deals = \<lparr> users = [alice, bob, carol], deals = [] \<rparr>"

definition succeeded_event :: "string \<Rightarrow> stripe_event" where
  "succeeded_event pid = \<lparr> event_type = ''payment_intent.succeeded'', object_id = pid \<rparr>"

definition sample_run :: "request list" where
  \<open>sample_run =
     [ReleaseCommand ''2'' ''/release'' None 1,
      StripeCallback (Some ''code'') (Some ''2'') (Some ''acct_2''),
      SellerStep ''1'' 10000 ''logo design'' (Some ''2'') ''hello'' ''1''
        ''ab12cd34-5e6f'' (Some ''pi_1''),
      StripeWebhook (Some (succeeded_event ''pi_1'')),
      ReleaseCommand ''2'' ''/release ab12cd34'' (Some ''tr_1'') 5]\<close>

definition empty_db :: db where
  "empty_db = \<lparr> users = [], deals = [] \<rparr>"

section \<open>Facts about the store queries\<close>

lemma findIndex_Some:
  "findIndex P xs = Some i \<Longrightarrow> i < length xs \<and> P (xs ! i)"
proof (induction xs arbitrary: i)
  case Nil
  then show ?case by simp
next
  case (Cons x xs)
  then show ?case by (cases "P x") auto
qed

lemma findIndex_None: "findIndex P xs = None \<longleftrightarrow> (\<forall>x \<in> set xs. \<not> P x)"
  by (induction xs) auto

lemma findIndex_update:
  "i < length xs \<Longrightarrow> P y = P (xs ! i) \<Longrightarrow> findIndex P (xs[i := y]) = findIndex P xs"
proof (induction xs arbitrary: i)
  case Nil
  then show ?case by simp
next
  case (Cons x xs)
  then show ?case by (cases i) auto
qed

lemma findOne_Some: "findOne P xs = Some d \<Longrightarrow> d \<in> set xs \<and> P d"
  unfolding findOne_def by (auto dest: findIndex_Some)

lemma findOne_None: "findOne P xs = None \<longleftrightarrow> (\<forall>x \<in> set xs. \<not> P x)"
  unfolding findOne_def by (simp add: findIndex_None)

lemma findIndex_distinct:
  "distinct (map f xs) \<Longrightarrow> i < length xs \<Longrightarrow> findIndex (\<lambda>x. f x = f (xs ! i)) xs = Some i"
proof (induction xs arbitrary: i)
  case Nil
  then show ?case by simp
next
  case (Cons x xs)
  show ?case
  proof (cases i)
    case 0
    then show ?thesis by simp
  next
    case (Suc j)
    with Cons.prems have j: "j < length xs" and d: "distinct (map f xs)"
      and nx: "f x \<notin> f ` set xs" by auto
    from j nx have "f x \<noteq> f (xs ! j)" by (metis imageI nth_mem)
    with Cons.IH [OF d j] Suc show ?thesis by simp
  qed
qed

lemma findOne_distinct:
  assumes "distinct (map f xs)" and "d \<in> set xs"
  shows "findOne (\<lambda>x. f x = f d) xs = Some d"
proof -
  from assms(2) obtain i where i: "i < length xs" and d: "xs ! i = d"
    by (auto simp: in_set_conv_nth)
  from findIndex_distinct [OF assms(1) i] d show ?thesis
    by (simp add: findOne_def)
qed

lemma updateOne_set:
  "y \<in> set (updateOne P f xs) \<Longrightarrow> y \<in> set xs \<or> (\<exists>x \<in> set xs. y = f x)"
  unfolding updateOne_def
  by (auto split: option.splits dest!: set_update_subset_insert [THEN subsetD]
      dest: findIndex_Some nth_mem)

lemma map_update_same:
  assumes "i < length xs" and "f y = f (xs ! i)"
  shows "map f (xs[i := y]) = map f xs"
proof -
  have "map f (xs[i := y]) = (map f xs)[i := map f xs ! i]"
    using assms by (simp add: map_update)
  then show ?thesis by (simp only: list_update_id)
qed

section \<open>Facts about the number model\<close>

text \<open>\<open>Math_round\<close> is \<open>\<lfloor>x + 1/2\<rfloor>\<close> on the value a number stands for.\<close>

lemma Math_round_floor: "Math_round x = \<lfloor>number_val x + 1 / 2\<rfloor>"
proof (cases x)
  case (Pair m t)
  show ?thesis
  proof (cases "0 \<le> t")
    case True
    have "number_val x + 1 / 2 = of_int (2 * m + 2 ^ nat t) / of_int (2 ^ nat (t + 1))"
      using True Pair by (simp add: number_val_def nat_add_distrib field_simps)
    then have "\<lfloor>number_val x + 1 / 2\<rfloor> = (2 * m + 2 ^ nat t) div 2 ^ nat (t + 1)"
      by (simp only: floor_divide_of_int_eq)
    with True Pair show ?thesis by (simp add: Math_round_def)
  next
    case False
    have "number_val x + 1 / 2 = of_int (m * 2 ^ nat (- t)) + 1 / 2"
      using False Pair by (simp add: number_val_def)
    moreover have "\<lfloor>(of_int (m * 2 ^ nat (- t)) :: rat) + 1 / 2\<rfloor> = m * 2 ^ nat (- t)"
      by (rule floor_unique) simp_all
    ultimately show ?thesis using False Pair by (simp add: Math_round_def)
  qed
qed

lemmas sample_defs = alice_def bob_def carol_def sample_deal_def sample_db_def new_user_def
  new_deal_def succeeded_event_def no_deals_def

lemma lit_0_97_value: "lit_0_97 = (8736983277098762, 53)"
  by code_simp

section \<open>Status changes made by the handlers\<close>

lemma middleware_deals: "deals (snd (middleware from_id s)) = deals s"
  by (simp add: middleware_def split: option.split)

lemma status_at_update:
  "status_at (s\<lparr>deals := (deals s)[i := d]\<rparr>) j
     = (if j = i \<and> i < length (deals s) then Some (status d) else status_at s j)"
  by (simp add: status_at_def nth_list_update)

lemma seller_step_completed:
  "status_at (snd (text_seller_step u amt descr fwd text chat uuid intent s)) i = Some Completed
     \<Longrightarrow> status_at s i = Some Completed"
  by (auto simp: text_seller_step_def insert_deal_def Let_def new_deal_def status_at_def
      nth_append nth_list_update split: option.splits if_splits sum.splits)

lemma release_completed:
  "status_at (snd (snd (release_cmd u text transfer now s))) i = Some Completed
     \<Longrightarrow> status_at s i = Some Completed \<or> status_at s i = Some Paid"
  by (auto simp: release_cmd_def Let_def status_at_def nth_list_update
      dest: findIndex_Some split: option.splits if_splits)

lemma dispute_completed:
  "status_at (snd (dispute_cmd u text now s)) i = Some Completed
     \<Longrightarrow> status_at s i = Some Completed"
  by (auto simp: dispute_cmd_def Let_def status_at_def nth_list_update
      dest: findIndex_Some split: option.splits if_splits)

lemma webhook_completed:
  "status_at (snd (snd (webhook_post ev s))) i = Some Completed
     \<Longrightarrow> status_at s i = Some Completed"
  by (auto simp: webhook_post_def handlePaymentSucceeded_def handlePaymentFailed_def Let_def
      status_at_def nth_list_update dest: findIndex_Some
      split: option.splits if_splits prod.splits)

lemma status_at_cong: "deals s' = deals s \<Longrightarrow> status_at s' i = status_at s i"
  by (simp add: status_at_def)

lemma handle_completed:
  assumes "status_at (handle r s) i = Some Completed"
  shows "status_at s i = Some Completed \<or> status_at s i = Some Paid"
proof (cases r)
  case (SellerStep from_id amt descr fwd msg chat uuid intent)
  obtain u s1 where m: "middleware from_id s = (u, s1)" by (cases "middleware from_id s")
  then have "deals s1 = deals s" using middleware_deals [of from_id s] by simp
  then have "status_at s1 i = status_at s i" by (rule status_at_cong)
  with assms SellerStep m seller_step_completed [of u amt descr fwd msg chat uuid intent s1 i]
  show ?thesis by simp
next
  case (ReleaseCommand from_id msg transfer now)
  obtain u s1 where m: "middleware from_id s = (u, s1)" by (cases "middleware from_id s")
  then have "deals s1 = deals s" using middleware_deals [of from_id s] by simp
  then have "status_at s1 i = status_at s i" by (rule status_at_cong)
  with assms ReleaseCommand m release_completed [of u msg transfer now s1 i]
  show ?thesis by simp
next
  case (DisputeCommand from_id msg now)
  obtain u s1 where m: "middleware from_id s = (u, s1)" by (cases "middleware from_id s")
  then have "deals s1 = deals s" using middleware_deals [of from_id s] by simp
  then have "status_at s1 i = status_at s i" by (rule status_at_cong)
  with assms DisputeCommand m dispute_completed [of u msg now s1 i]
  show ?thesis by simp
next
  case (StripeWebhook ev)
  with assms webhook_completed [of ev s i] show ?thesis by simp
next
  case (StripeCallback code state token)
  have "deals (snd (stripe_callback code state token s)) = deals s"
    by (simp add: stripe_callback_def split: option.split)
  then have "status_at (snd (stripe_callback code state token s)) i = status_at s i"
    by (rule status_at_cong)
  with assms StripeCallback show ?thesis by simp
next
  case (PaymentPage did retrieved)
  have "snd (payment_page did retrieved s) = s"
    by (simp add: payment_page_def split: option.split)
  with assms PaymentPage show ?thesis by simp
qed

lemma trace_length: "length (trace rs s) = Suc (length rs)"
  by (induction rs arbitrary: s) auto

lemma trace_completed:
  "k < length (trace rs s) \<Longrightarrow> status_at (trace rs s ! k) i = Some Completed \<Longrightarrow>
     status_at s i = Some Completed \<or> (\<exists>j<k. status_at (trace rs s ! j) i = Some Paid)"
proof (induction rs arbitrary: s k)
  case Nil
  then show ?case by simp
next
  case (Cons r rs)
  show ?case
  proof (cases k)
    case 0
    with Cons.prems show ?thesis by simp
  next
    case (Suc k')
    with Cons.prems have k': "k' < length (trace rs (handle r s))"
      and c: "status_at (trace rs (handle r s) ! k') i = Some Completed" by auto
    from Cons.IH [OF k' c]
    consider "status_at (handle r s) i = Some Completed"
      | j where "j < k'" "status_at (trace rs (handle r s) ! j) i = Some Paid" by blast
    then show ?thesis
    proof cases
      case 1
      from handle_completed [OF 1] show ?thesis
      proof
        assume "status_at s i = Some Completed" then show ?thesis by simp
      next
        assume "status_at s i = Some Paid"
        then have "status_at (trace (r # rs) s ! 0) i = Some Paid" by simp
        with Suc show ?thesis by blast
      qed
    next
      case 2
      then have "Suc j < k" "status_at (trace (r # rs) s ! Suc j) i = Some Paid"
        using Suc by auto
      then show ?thesis by blast
    qed
  qed
qed

section \<open>Invariants of the handlers\<close>

text \<open>
  No handler moves a deal into status \<open>cancelled\<close> or \<open>refunded\<close>; every handler keeps
  account references on active users only; every handler keeps the deal ids distinct.
\<close>

lemma seller_step_users:
  "users (snd (text_seller_step u amt descr fwd msg chat uuid intent s)) = users s"
  by (auto simp: text_seller_step_def Let_def split: option.splits sum.splits)






lemma middleware_result:
  "middleware from_id s = (u, s1) \<Longrightarrow>
     deals s1 = deals s \<and> (users s1 = users s \<or> users s1 = users s @ [new_user from_id])"
  by (auto simp: middleware_def split: option.splits)

lemma account_invariant_cong:
  "users s' = users s \<Longrightarrow> account_invariant s' = account_invariant s"
  by (simp add: account_invariant_def)

lemma middleware_account_invariant:
  "account_invariant s \<Longrightarrow> account_invariant (snd (middleware from_id s))"
  by (auto simp: middleware_def account_invariant_def new_user_def truthy_def
      split: option.splits)

lemma release_account_invariant:
  assumes "account_invariant s"
  shows "account_invariant (snd (snd (release_cmd u msg transfer now s)))"
proof -
  have "account_invariant (s\<lparr>deals := ds, users := updateOne P
          (\<lambda>u. u\<lparr>successfulDeals := successfulDeals u + 1\<rparr>) (users s)\<rparr>)" for ds P
    using assms by (auto simp: account_invariant_def dest!: updateOne_set)
  then show ?thesis
    using assms
    by (auto simp: release_cmd_def Let_def split: option.splits if_splits)
qed

lemma callback_account_invariant:
  assumes "account_invariant s"
  shows "account_invariant (snd (stripe_callback code state token s))"
proof -
  have "account_invariant (s\<lparr>users := updateOne P
          (\<lambda>u. u\<lparr>stripeAccountId := Some acct, stripeAccountStatus := StatusActive\<rparr>)
          (users s)\<rparr>)" for P acct
    using assms by (auto simp: account_invariant_def dest!: updateOne_set)
  then show ?thesis
    using assms by (auto simp: stripe_callback_def split: option.splits)
qed

lemma handle_account_invariant:
  assumes "account_invariant s"
  shows "account_invariant (handle r s)"
proof (cases r)
  case (SellerStep from_id amt descr fwd msg chat uuid intent)
  obtain u s1 where m: "middleware from_id s = (u, s1)" by (cases "middleware from_id s")
  with middleware_account_invariant [OF assms, of from_id] have "account_invariant s1" by simp
  then have "account_invariant (snd (text_seller_step u amt descr fwd msg chat uuid intent s1))"
    by (simp only: account_invariant_cong [OF seller_step_users])
  with SellerStep m show ?thesis by simp
next
  case (ReleaseCommand from_id msg transfer now)
  obtain u s1 where m: "middleware from_id s = (u, s1)" by (cases "middleware from_id s")
  with middleware_account_invariant [OF assms, of from_id] have "account_invariant s1" by simp
  from release_account_invariant [OF this] ReleaseCommand m show ?thesis by simp
next
  case (DisputeCommand from_id msg now)
  obtain u s1 where m: "middleware from_id s = (u, s1)" by (cases "middleware from_id s")
  with middleware_account_invariant [OF assms, of from_id] have inv: "account_invariant s1"
    by simp
  have us: "users (snd (dispute_cmd u msg now s1)) = users s1"
    by (auto simp: dispute_cmd_def Let_def split: option.splits)
  from inv have "account_invariant (snd (dispute_cmd u msg now s1))"
    by (simp only: account_invariant_cong [OF us])
  with DisputeCommand m show ?thesis by simp
next
  case (StripeWebhook ev)
  have us: "users (snd (snd (webhook_post ev s))) = users s"
    by (auto simp: webhook_post_def handlePaymentSucceeded_def handlePaymentFailed_def Let_def
        split: option.splits prod.splits)
  from assms have "account_invariant (snd (snd (webhook_post ev s)))"
    by (simp only: account_invariant_cong [OF us])
  with StripeWebhook show ?thesis by simp
next
  case (StripeCallback code state token)
  with callback_account_invariant [OF assms] show ?thesis by simp
next
  case (PaymentPage did retrieved)
  have "snd (payment_page did retrieved s) = s"
    by (simp add: payment_page_def split: option.split)
  with assms PaymentPage show ?thesis by simp
qed

lemma seller_step_distinct:
  assumes "distinct (map dealId (deals s))"
  shows "distinct (map dealId (deals (snd (text_seller_step u amt descr fwd msg chat uuid
           intent s))))"
proof -
  have fresh: "distinct (map dealId (deals s @ [d]))"
    if "findIndex (\<lambda>x. dealId x = dealId d) (deals s) = None" for d
    using that assms by (auto simp: findIndex_None)
  have upd: "map dealId ((deals s @ [d])[length (deals s) := d\<lparr>stripePaymentIntentId := p\<rparr>])
               = map dealId (deals s @ [d])" for d p
    by (rule map_update_same) simp_all
  show ?thesis
    using assms fresh
    by (auto simp: text_seller_step_def insert_deal_def Let_def upd
        simp del: map_append distinct_append
        split: option.splits if_splits sum.splits)
qed

lemma release_dealIds:
  "map dealId (deals (snd (snd (release_cmd u msg transfer now s)))) = map dealId (deals s)"
  by (auto simp: release_cmd_def Let_def map_update_same dest: findIndex_Some
      split: option.splits if_splits)

lemma dispute_dealIds:
  "map dealId (deals (snd (dispute_cmd u msg now s))) = map dealId (deals s)"
  by (auto simp: dispute_cmd_def Let_def map_update_same dest: findIndex_Some
      split: option.splits if_splits)

lemma webhook_dealIds:
  "map dealId (deals (snd (snd (webhook_post ev s)))) = map dealId (deals s)"
  by (auto simp: webhook_post_def handlePaymentSucceeded_def handlePaymentFailed_def Let_def
      map_update_same dest: findIndex_Some split: option.splits if_splits prod.splits)

lemma handle_distinct_dealIds:
  assumes "distinct (map dealId (deals s))"
  shows "distinct (map dealId (deals (handle r s)))"
proof (cases r)
  case (SellerStep from_id amt descr fwd msg chat uuid intent)
  obtain u s1 where m: "middleware from_id s = (u, s1)" by (cases "middleware from_id s")
  then have "deals s1 = deals s" using middleware_deals [of from_id s] by simp
  with assms have "distinct (map dealId (deals s1))" by simp
  from seller_step_distinct [OF this] SellerStep m show ?thesis by simp
next
  case (ReleaseCommand from_id msg transfer now)
  obtain u s1 where m: "middleware from_id s = (u, s1)" by (cases "middleware from_id s")
  then have "deals s1 = deals s" using middleware_deals [of from_id s] by simp
  with assms ReleaseCommand m release_dealIds [of u msg transfer now s1]
  show ?thesis by simp
next
  case (DisputeCommand from_id msg now)
  obtain u s1 where m: "middleware from_id s = (u, s1)" by (cases "middleware from_id s")
  then have "deals s1 = deals s" using middleware_deals [of from_id s] by simp
  with assms DisputeCommand m dispute_dealIds [of u msg now s1]
  show ?thesis by simp
next
  case (StripeWebhook ev)
  with assms webhook_dealIds [of ev s] show ?thesis by simp
next
  case (StripeCallback code state token)
  have "deals (snd (stripe_callback code state token s)) = deals s"
    by (simp add: stripe_callback_def split: option.split)
  with assms StripeCallback show ?thesis by simp
next
  case (PaymentPage did retrieved)
  have "snd (payment_page did retrieved s) = s"
    by (simp add: payment_page_def split: option.split)
  with assms PaymentPage show ?thesis by simp
qed

lemma trace_invariants:
  assumes "account_invariant s" and "distinct (map dealId (deals s))"
  shows "\<forall>s' \<in> set (trace rs s). account_invariant s' \<and> distinct (map dealId (deals s'))"
  using assms
proof (induction rs arbitrary: s)
  case Nil
  then show ?case by simp
next
  case (Cons r rs)
  from Cons.prems have "account_invariant (handle r s)"
    and "distinct (map dealId (deals (handle r s)))"
    by (simp_all add: handle_account_invariant handle_distinct_dealIds)
  with Cons.IH [of "handle r s"] Cons.prems show ?case by simp
qed




lemma trace_account_invariant:
  "account_invariant s0 \<Longrightarrow> s \<in> set (trace rs s0) \<Longrightarrow> account_invariant s"
proof (induction rs arbitrary: s0)
  case Nil
  then show ?case by simp
next
  case (Cons r rs)
  from Cons.prems(2) have "s = s0 \<or> s \<in> set (trace rs (handle r s0))" by simp
  then show ?case
  proof
    assume "s = s0" with Cons.prems(1) show ?thesis by simp
  next
    assume "s \<in> set (trace rs (handle r s0))"
    with Cons.IH [OF handle_account_invariant [OF Cons.prems(1)]] show ?thesis by simp
  qed
qed



section \<open>The webhook's payment-succeeded path\<close>

text \<open>
  C1.  The claim: the payment-succeeded path sets a deal to \<open>paid\<close> only when the deal is
  \<open>created\<close>, and leaves a deal in any other status unchanged.  \<open>handlePaymentSucceeded\<close>
  assigns \<open>paid\<close> without reading the current status.  Evaluated on a store whose deal is
  \<open>completed\<close> (so \<open>canBePaid\<close> is false for it), the event for the deal's payment intent
  is acknowledged with 200 and the deal is back in status \<open>paid\<close>.
\<close>

theorem handlePaymentSucceeded_overwrites_completed:
  "status_at (sample_db Completed) 0 = Some Completed \<and>
   \<not> canBePaid (deals (sample_db Completed) ! 0) \<and>
   webhook_post (Some (succeeded_event ''pi_1'')) (sample_db Completed)
     = (Ok200, [(''1'', PaymentConfirmed), (''2'', PaymentConfirmed)], sample_db Paid)"
  by (simp add: sample_defs status_at_def canBePaid_def webhook_post_def
      handlePaymentSucceeded_def)

lemma handlePaymentSucceeded_twice:
  "snd (handlePaymentSucceeded pid (snd (handlePaymentSucceeded pid s)))
     = snd (handlePaymentSucceeded pid s)"
proof (cases "findIndex (\<lambda>d. stripePaymentIntentId d = Some pid) (deals s)")
  case None
  then show ?thesis by (simp add: handlePaymentSucceeded_def)
next
  case (Some i)
  then have i: "i < length (deals s)" by (auto dest: findIndex_Some)
  let ?d = "(deals s ! i)\<lparr>status := Paid\<rparr>"
  have "findIndex (\<lambda>d. stripePaymentIntentId d = Some pid) ((deals s)[i := ?d])
          = Some i"
    using findIndex_update [OF i, of "\<lambda>d. stripePaymentIntentId d = Some pid" ?d] Some
    by simp
  with Some i show ?thesis
    by (simp add: handlePaymentSucceeded_def Let_def)
qed

text \<open>
  C8.  Marking a deal paid is idempotent: delivering the same payment-succeeded event a
  second time is acknowledged with 200 and leaves the store exactly as the first delivery
  left it.  (The two notifications are sent again; they are not part of the store.)
\<close>

theorem markPaid_idempotent:
  "fst (webhook_post (Some (succeeded_event pid))
          (snd (snd (webhook_post (Some (succeeded_event pid)) s)))) = Ok200 \<and>
   snd (snd (webhook_post (Some (succeeded_event pid))
          (snd (snd (webhook_post (Some (succeeded_event pid)) s)))))
     = snd (snd (webhook_post (Some (succeeded_event pid)) s))"
  using handlePaymentSucceeded_twice [of pid s]
  by (simp add: webhook_post_def succeeded_event_def split: prod.split)

text \<open>The same on the sample store: one delivery and two deliveries both end in \<open>paid\<close>.\<close>

theorem markPaid_idempotent_witness:
  "snd (snd (webhook_post (Some (succeeded_event ''pi_1'')) (sample_db Created)))
     = sample_db Paid \<and>
   webhook_post (Some (succeeded_event ''pi_1''))
       (snd (snd (webhook_post (Some (succeeded_event ''pi_1'')) (sample_db Created))))
     = (Ok200, [(''1'', PaymentConfirmed), (''2'', PaymentConfirmed)], sample_db Paid)"
proof -
  have one: "webhook_post (Some (succeeded_event ''pi_1'')) (sample_db Created)
      = (Ok200, [(''1'', PaymentConfirmed), (''2'', PaymentConfirmed)], sample_db Paid)"
    by (simp add: sample_defs webhook_post_def handlePaymentSucceeded_def)
  have ns: "fst (snd (webhook_post (Some (succeeded_event ''pi_1'')) (sample_db Paid)))
      = [(''1'', PaymentConfirmed), (''2'', PaymentConfirmed)]"
    by (simp add: sample_defs webhook_post_def handlePaymentSucceeded_def)
  from markPaid_idempotent [of "''pi_1''" "sample_db Created"] one ns
  show ?thesis by (simp add: prod_eq_iff)
qed

section \<open>Release: the amount transferred\<close>

text \<open>
  C2.  The claim: a successful release transfers \<open>a - round (a * feePercent / 100)\<close>.  The
  handler transfers \<open>Math.round(deal.amount * 0.97)\<close> and never reads the deal's fee
  percentage.  For a deal of 150 cents at the default 3 percent the transfer request is for
  146, while the claim's formula, the deal's own \<open>netAmount\<close> virtual and
  \<open>calculateNetAmount\<close> all give 145; for 10000 cents at 5 percent the handler transfers
  9700 where the claim's formula gives 9500.  At 10000 cents and 3 percent both give 9700.
\<close>

theorem release_amount_differs_from_netAmount:
  "fst (snd (release_cmd bob ''/release ab12cd34'' (Some ''tr_1'') 7 (sample_db Paid)))
     = Some \<lparr> tr_amount = 146, tr_currency = ''usd'', tr_destination = Some ''acct_2'',
              tr_transfer_group = ''ab12cd34'' \<rparr> \<and>
   spec_netAmount 150 3 = 145 \<and>
   netAmount (sample_deal Paid) = 145 \<and>
   calculateNetAmount 150 3 = 145 \<and>
   release_amount ((sample_deal Paid)\<lparr>amount := 10000, platformFeePercent := 5\<rparr>) = 9700 \<and>
   spec_netAmount 10000 5 = 9500 \<and>
   release_amount ((sample_deal Paid)\<lparr>amount := 10000\<rparr>) = 9700 \<and>
   spec_netAmount 10000 3 = 9700"
  by code_simp

section \<open>Deal creation\<close>

text \<open>
  C3 (amended).  The seller step saves the new deal before it calls the gateway.  Whenever
  the payment-intent creation call fails, the deal saved just before the call stays in the
  store, in status \<open>created\<close> and without a payment-intent reference, and nothing else in
  the store changes.
\<close>

theorem createDeal_gateway_failure_keeps_saved_deal:
  assumes "fst (text_seller_step u amt descr fwd text chat uuid intent s) = Inl GatewayError"
  shows "intent = None \<and>
         (\<exists>sid. fwd = Some sid \<and>
            snd (text_seller_step u amt descr fwd text chat uuid intent s)
              = s\<lparr>deals := deals s @
                    [new_deal (take 8 uuid) (telegramId u) sid amt descr chat]\<rparr> \<and>
            status (new_deal (take 8 uuid) (telegramId u) sid amt descr chat) = Created \<and>
            stripePaymentIntentId (new_deal (take 8 uuid) (telegramId u) sid amt descr chat)
              = None)"
  using assms
  by (auto simp: text_seller_step_def insert_deal_def Let_def new_deal_def
      split: option.splits if_splits sum.splits)

text \<open>
  The claim as stated (a failed intent creation leaves no deal in the store) fails on a
  store without deals: after the failed call the store holds the new deal.
\<close>

theorem createDeal_gateway_failure_counterexample:
  "fst (text_seller_step alice 10000 ''logo design'' (Some ''2'') ''hello'' ''1''
          ''ab12cd34-5e6f'' None no_deals) = Inl GatewayError \<and>
   deals no_deals = [] \<and>
   deals (snd (text_seller_step alice 10000 ''logo design'' (Some ''2'') ''hello'' ''1''
          ''ab12cd34-5e6f'' None no_deals))
     = [new_deal ''ab12cd34'' ''1'' ''2'' 10000 ''logo design'' ''1'']"
  by code_simp

text \<open>The amended statement at the same input.\<close>

theorem createDeal_gateway_failure_witness:
  "fst (text_seller_step alice 10000 ''logo design'' (Some ''2'') ''hello'' ''1''
          ''ab12cd34-5e6f'' None no_deals) = Inl GatewayError \<and>
   snd (text_seller_step alice 10000 ''logo design'' (Some ''2'') ''hello'' ''1''
          ''ab12cd34-5e6f'' None no_deals)
     = no_deals\<lparr>deals := deals no_deals @
          [new_deal (take 8 ''ab12cd34-5e6f'') (telegramId alice) ''2'' 10000
             ''logo design'' ''1'']\<rparr>"
proof -
  have h: "fst (text_seller_step alice 10000 ''logo design'' (Some ''2'') ''hello'' ''1''
          ''ab12cd34-5e6f'' None no_deals) = Inl GatewayError"
    by code_simp
  from createDeal_gateway_failure_keeps_saved_deal [OF h] h show ?thesis by simp
qed

text \<open>
  The seller step reads the seller's account reference: a seller without a user record or
  without a \<open>stripeAccountId\<close> is turned away and the store is unchanged.
\<close>

lemma seller_without_account_rejected:
  assumes "findOne (\<lambda>x. telegramId x = sid) (users s) = None \<or>
           (\<exists>seller. findOne (\<lambda>x. telegramId x = sid) (users s) = Some seller \<and>
                     \<not> truthy (stripeAccountId seller))"
  shows "text_seller_step u amt descr (Some sid) msg chat uuid intent s
           = (Inr SellerNotConnected, s)"
  using assms by (auto simp: text_seller_step_def)

text \<open>
  C4.  In every store that the handlers reach from a store in which only active users carry
  an account reference (the empty store is one), a deal-creation attempt whose designated
  seller cannot receive payments (no user record, or an account status other than
  \<open>active\<close>) fails with the seller-not-connected reply, and the store, hence the deal
  collection, is unchanged.
\<close>

theorem createDeal_inactive_seller_rejected:
  assumes "account_invariant s0"
    and "s \<in> set (trace rs s0)"
    and "\<forall>seller. findOne (\<lambda>x. telegramId x = sid) (users s) = Some seller
               \<longrightarrow> \<not> canReceivePayments seller"
  shows "text_seller_step u amt descr (Some sid) msg chat uuid intent s
           = (Inr SellerNotConnected, s)"
proof (cases "findOne (\<lambda>x. telegramId x = sid) (users s)")
  case None
  then show ?thesis by (intro seller_without_account_rejected disjI1)
next
  case (Some seller)
  from trace_account_invariant [OF assms(1,2)] have inv: "account_invariant s" .
  from Some have "seller \<in> set (users s)" by (auto dest: findOne_Some)
  with inv
  have "truthy (stripeAccountId seller) \<longrightarrow> stripeAccountStatus seller = StatusActive"
    by (simp add: account_invariant_def)
  moreover from assms(3) Some have "stripeAccountStatus seller \<noteq> StatusActive"
    by (simp add: canReceivePayments_def)
  ultimately have "\<not> truthy (stripeAccountId seller)" by blast
  with Some show ?thesis by (intro seller_without_account_rejected disjI2 exI [of _ seller]) simp
qed

text \<open>
  In the sample run, after the seller's first contact with the bot and before the account
  is connected, the buyer's attempt to create the deal is turned away.
\<close>

theorem createDeal_inactive_seller_witness:
  "account_invariant empty_db \<and>
   trace sample_run empty_db ! 1 \<in> set (trace sample_run empty_db) \<and>
   findOne (\<lambda>x. telegramId x = ''2'') (users (trace sample_run empty_db ! 1))
     = Some (new_user ''2'') \<and>
   \<not> canReceivePayments (new_user ''2'') \<and>
   text_seller_step alice 10000 ''logo design'' (Some ''2'') ''hello'' ''1''
       ''ab12cd34-5e6f'' (Some ''pi_1'') (trace sample_run empty_db ! 1)
     = (Inr SellerNotConnected, trace sample_run empty_db ! 1)"
proof -
  let ?s = "trace sample_run empty_db ! 1"
  have inv: "account_invariant empty_db"
    by (simp add: account_invariant_def empty_db_def)
  have reach: "?s \<in> set (trace sample_run empty_db)"
    by (rule nth_mem) (simp add: trace_length sample_run_def)
  have f: "findOne (\<lambda>x. telegramId x = ''2'') (users ?s) = Some (new_user ''2'')"
    by code_simp
  have na: "\<not> canReceivePayments (new_user ''2'')"
    by (simp add: canReceivePayments_def new_user_def)
  from f na have all: "\<forall>seller. findOne (\<lambda>x. telegramId x = ''2'') (users ?s) = Some seller
               \<longrightarrow> \<not> canReceivePayments seller" by simp
  from createDeal_inactive_seller_rejected [OF inv reach all] inv reach f na
  show ?thesis by simp
qed

text \<open>
  C5 (amended).  The seller step does not compare the buyer with the seller.  An attempt in
  which the caller designates themself fails, with the store unchanged, whenever the caller
  has no payment-account reference.
\<close>

theorem createDeal_self_deal_without_account_rejected:
  assumes "findOne (\<lambda>x. telegramId x = telegramId u) (users s) = Some u"
    and "\<not> truthy (stripeAccountId u)"
  shows "text_seller_step u amt descr (Some (telegramId u)) text chat uuid intent s
           = (Inr SellerNotConnected, s)"
  using assms by (simp add: text_seller_step_def)

text \<open>
  The claim as stated (every attempt with buyer equal to seller fails) is false for a caller
  with a connected account: the deal is created with the same buyer and seller.
\<close>

theorem createDeal_self_deal_counterexample:
  "fst (text_seller_step bob 10000 ''logo design'' (Some (telegramId bob)) ''hello'' ''2''
          ''ab12cd34-5e6f'' (Some ''pi_1'') no_deals) = Inr (DealCreated ''ab12cd34'') \<and>
   deals (snd (text_seller_step bob 10000 ''logo design'' (Some (telegramId bob))
          ''hello'' ''2'' ''ab12cd34-5e6f'' (Some ''pi_1'') no_deals))
     = [(new_deal ''ab12cd34'' ''2'' ''2'' 10000 ''logo design'' ''2'')
          \<lparr>stripePaymentIntentId := Some ''pi_1''\<rparr>] \<and>
   buyerId (new_deal ''ab12cd34'' ''2'' ''2'' 10000 ''logo design'' ''2'')
     = sellerId (new_deal ''ab12cd34'' ''2'' ''2'' 10000 ''logo design'' ''2'')"
  by code_simp

text \<open>A buyer without an account who forwards their own message is turned away.\<close>

theorem createDeal_self_deal_witness:
  "findOne (\<lambda>x. telegramId x = telegramId alice) (users no_deals) = Some alice \<and>
   \<not> truthy (stripeAccountId alice) \<and>
   text_seller_step alice 10000 ''logo design'' (Some (telegramId alice)) ''hello'' ''1''
       ''ab12cd34-5e6f'' (Some ''pi_1'') no_deals = (Inr SellerNotConnected, no_deals)"
proof -
  have h: "findOne (\<lambda>x. telegramId x = telegramId alice) (users no_deals) = Some alice"
    by (simp add: findOne_def sample_defs)
  have t: "\<not> truthy (stripeAccountId alice)"
    by (simp add: truthy_def sample_defs)
  from createDeal_self_deal_without_account_rejected [OF h t] h t show ?thesis by simp
qed

section \<open>Dispute\<close>



text \<open>
  C7.  The claim: a successful dispute records the reason, the initiator and the timestamp.
  The handler stores \<open>disputeReason\<close> and \<open>disputedAt\<close>; the schema's \<open>disputedBy\<close> field
  is never written.  After the buyer's successful dispute of the sample deal the reason and
  the timestamp are set and \<open>disputedBy\<close> is still unset.
\<close>

theorem dispute_does_not_record_initiator:
  "fst (dispute_cmd alice ''/dispute ab12cd34 item not delivered'' 42 (sample_db Paid))
     = DealDisputed ''item not delivered'' \<and>
   deals (snd (dispute_cmd alice ''/dispute ab12cd34 item not delivered'' 42 (sample_db Paid)))
     = [(sample_deal Disputed)\<lparr>disputeReason := Some ''item not delivered'',
          disputedAt := Some 42\<rparr>] \<and>
   disputedBy ((sample_deal Disputed)\<lparr>disputeReason := Some ''item not delivered'',
          disputedAt := Some 42\<rparr>) = None"
  by code_simp

section \<open>Completed only after paid\<close>

text \<open>
  C9.  In every execution of the handlers, started from a store in which the deal is not
  already \<open>completed\<close>, a deal that is \<open>completed\<close> in some state of the execution was
  \<open>paid\<close> in an earlier state.
\<close>

theorem completed_only_after_paid:
  assumes "status_at s0 i \<noteq> Some Completed"
    and "k < length (trace rs s0)"
    and "status_at (trace rs s0 ! k) i = Some Completed"
  shows "\<exists>j<k. status_at (trace rs s0 ! j) i = Some Paid"
  using trace_completed [OF assms(2,3)] assms(1) by simp

text \<open>
  A run from the empty store: the seller connects, the buyer creates the deal, the gateway
  reports the payment, the seller releases.
\<close>

theorem completed_only_after_paid_witness:
  "status_at empty_db 0 \<noteq> Some Completed \<and>
   5 < length (trace sample_run empty_db) \<and>
   status_at (trace sample_run empty_db ! 5) 0 = Some Completed \<and>
   (\<exists>j<5. status_at (trace sample_run empty_db ! j) 0 = Some Paid)"
proof -
  have a: "status_at empty_db 0 \<noteq> Some Completed"
    by (simp add: status_at_def empty_db_def)
  have b: "5 < length (trace sample_run empty_db)"
    by (simp add: trace_length sample_run_def)
  have c: "status_at (trace sample_run empty_db ! 5) 0 = Some Completed"
    by code_simp
  from completed_only_after_paid [OF a b c] a b c show ?thesis by simp
qed


section \<open>Payment page\<close>

text \<open>
  C10.  \<open>GET /payment/:dealId\<close> never changes the store; it serves the payment form only
  for a deal of the store with that id and status \<open>created\<close>; it answers 404 for an unknown
  id and, deal ids being unique, for every deal with that id in any other status.
\<close>

theorem payment_page_only_created:
  "snd (payment_page did retrieved s) = s \<and>
   (\<forall>d. fst (payment_page did retrieved s) = PaymentForm d \<longrightarrow>
        d \<in> set (deals s) \<and> dealId d = did \<and> status d = Created) \<and>
   ((\<forall>d \<in> set (deals s). dealId d \<noteq> did) \<longrightarrow>
        fst (payment_page did retrieved s) = NotFound404) \<and>
   (distinct (map dealId (deals s)) \<longrightarrow>
      (\<forall>d \<in> set (deals s). dealId d = did \<and> status d \<noteq> Created \<longrightarrow>
        fst (payment_page did retrieved s) = NotFound404))"
proof -
  have unchanged: "snd (payment_page did retrieved s) = s"
    by (simp add: payment_page_def split: option.split)
  have form: "d \<in> set (deals s) \<and> dealId d = did \<and> status d = Created"
    if "fst (payment_page did retrieved s) = PaymentForm d" for d
  proof -
    from that have "findOne (\<lambda>x. dealId x = did) (deals s) = Some d \<and> status d = Created"
      by (auto simp: payment_page_def split: option.splits if_splits)
    then show ?thesis by (auto dest: findOne_Some)
  qed
  have unknown: "fst (payment_page did retrieved s) = NotFound404"
    if "\<forall>d \<in> set (deals s). dealId d \<noteq> did"
  proof -
    from that have "findOne (\<lambda>x. dealId x = did) (deals s) = None"
      by (simp add: findOne_None)
    then show ?thesis by (simp add: payment_page_def)
  qed
  have other: "fst (payment_page did retrieved s) = NotFound404"
    if dist: "distinct (map dealId (deals s))" and mem: "d \<in> set (deals s)"
      and d: "dealId d = did \<and> status d \<noteq> Created" for d
  proof -
    from findOne_distinct [OF dist mem] d
    have "findOne (\<lambda>x. dealId x = did) (deals s) = Some d" by auto
    with d show ?thesis by (simp add: payment_page_def)
  qed
  from unchanged form unknown other show ?thesis by blast
qed

text \<open>On the sample store: 404 for the paid deal and for an unknown id, the form for the
  created deal.\<close>

theorem payment_page_only_created_witness:
  "distinct (map dealId (deals (sample_db Paid))) \<and>
   sample_deal Paid \<in> set (deals (sample_db Paid)) \<and>
   status (sample_deal Paid) \<noteq> Created \<and>
   payment_page ''ab12cd34'' True (sample_db Paid) = (NotFound404, sample_db Paid) \<and>
   payment_page ''ffffffff'' True (sample_db Paid) = (NotFound404, sample_db Paid) \<and>
   payment_page ''ab12cd34'' True (sample_db Created)
     = (PaymentForm (sample_deal Created), sample_db Created)"
proof -
  have d: "distinct (map dealId (deals (sample_db Paid)))"
    and m: "sample_deal Paid \<in> set (deals (sample_db Paid))"
    and st: "dealId (sample_deal Paid) = ''ab12cd34'' \<and> status (sample_deal Paid) \<noteq> Created"
    and un: "\<forall>d \<in> set (deals (sample_db Paid)). dealId d \<noteq> ''ffffffff''"
    by (simp_all add: sample_defs)
  have f: "fst (payment_page ''ab12cd34'' True (sample_db Created))
             = PaymentForm (sample_deal Created)"
    by (simp add: payment_page_def findOne_def sample_defs)
  note paid = payment_page_only_created [of "''ab12cd34''" True "sample_db Paid"]
  note unknown = payment_page_only_created [of "''ffffffff''" True "sample_db Paid"]
  note created = payment_page_only_created [of "''ab12cd34''" True "sample_db Created"]
  from paid d m st have p1: "fst (payment_page ''ab12cd34'' True (sample_db Paid)) = NotFound404"
    by blast
  from paid have p2: "snd (payment_page ''ab12cd34'' True (sample_db Paid)) = sample_db Paid"
    by (rule conjunct1)
  from unknown un have u1: "fst (payment_page ''ffffffff'' True (sample_db Paid)) = NotFound404"
    by blast
  from unknown have u2: "snd (payment_page ''ffffffff'' True (sample_db Paid)) = sample_db Paid"
    by (rule conjunct1)
  from created have c2: "snd (payment_page ''ab12cd34'' True (sample_db Created))
      = sample_db Created"
    by (rule conjunct1)
  from p1 p2 u1 u2 f c2 d m st show ?thesis
    by (simp add: prod_eq_iff)
qed

end
